theory Spec2Isabelle
  imports Main "HOL-Library.Sublist"
begin

section \<open>The leveled logger of \<^verbatim>\<open>log.go\<close>\<close>

text \<open>
  A shallow embedding of the Go package \<^verbatim>\<open>log\<close> (file \<^verbatim>\<open>src/log.go\<close>).
  Go strings and byte slices are byte sequences, modelled as \<^typ>\<open>string\<close>
  (a list of 8-bit characters); \<^verbatim>\<open>len\<close> is \<^const>\<open>length\<close>. Go's \<^verbatim>\<open>int\<close>
  is modelled as \<^typ>\<open>int\<close>: the package only compares and stores levels, it never
  does arithmetic on them.
\<close>

subsection \<open>Log levels\<close>

definition LevelTrace :: int where "LevelTrace = 5"
definition LevelDebug :: int where "LevelDebug = 4"
definition LevelInfo :: int where "LevelInfo = 3"
definition LevelWarning :: int where "LevelWarning = 2"
definition LevelError :: int where "LevelError = 1"
definition LevelNone :: int where "LevelNone = 0"

subsection \<open>Values, output and the package state\<close>

text \<open>
  The variadic \<^verbatim>\<open>v ...interface{}\<close> of the entry points is a list of boxed values.
  The package itself only ever boxes an \<^verbatim>\<open>int\<close> (the rejected level of the setters);
  the other constructors stand for what a caller may pass.
\<close>

datatype iface = IntV int | StringV string | BoolV bool

text \<open>
  What the package writes. \<^verbatim>\<open>logger\<close> is \<^verbatim>\<open>log.New(os.Stdout, "", log.LUTC)\<close>:
  no prefix and no date or time flag, so \<^verbatim>\<open>logger.Println(msg)\<close> writes \<^verbatim>\<open>msg\<close> and a
  newline to standard output, and \<^verbatim>\<open>logger.Printf(msg, v...)\<close> writes the result of
  substituting \<^verbatim>\<open>v\<close> into the format string \<^verbatim>\<open>msg\<close>. The event keeps the operands
  of the call. \<^verbatim>\<open>debug.PrintStack()\<close> of Go's \<^verbatim>\<open>runtime/debug\<close> is
  \<^verbatim>\<open>os.Stderr.Write(Stack())\<close>: it writes the stack trace of the calling goroutine
  to standard error.
\<close>

datatype event = LoggerPrintln string | LoggerPrintf string "iface list" | PrintStack

datatype stream = Stdout | Stderr

fun stream_of :: "event \<Rightarrow> stream" where
  "stream_of (LoggerPrintln msg) = Stdout"
| "stream_of (LoggerPrintf msg v) = Stdout"
| "stream_of PrintStack = Stderr"

text \<open>The five exported entry points, as names.\<close>

datatype entry = ETrace | EDebug | EInfo | EWarn | EError

text \<open>
  The package-level variables \<^verbatim>\<open>logLevel\<close>, \<^verbatim>\<open>defaultLevel\<close> and \<^verbatim>\<open>Colours\<close>,
  the events written so far (\<open>out\<close>, oldest first), and a history variable \<open>calls\<close>
  that is not part of the program: every entry point appends its own name to it when it
  is entered, so that "which entry point was invoked" can be stated.
\<close>

record state =
  logLevel :: int
  defaultLevel :: int
  Colours :: bool
  out :: "event list"
  calls :: "entry list"

text \<open>\<^verbatim>\<open>var logLevel = LevelDebug\<close>, \<^verbatim>\<open>var defaultLevel = LevelDebug\<close>, \<^verbatim>\<open>var Colours = false\<close>.\<close>

definition init_state :: state where
  "init_state = \<lparr>logLevel = LevelDebug, defaultLevel = LevelDebug, Colours = False,
                  out = [], calls = []\<rparr>"

text \<open>
  The result of \<^verbatim>\<open>runtime.Caller(2)\<close> inside \<^verbatim>\<open>print\<close>: the file path and the line
  of the call site of the entry point (the empty path and line 0 when the runtime has no
  such frame).
\<close>

type_synonym caller = "string \<times> int"

subsection \<open>The formatting done by \<^verbatim>\<open>fmt.Sprintf\<close>\<close>

text \<open>
  \<^verbatim>\<open>fmt\<close> measures the width of \<^verbatim>\<open>%30s\<close> in runes, with
  \<^verbatim>\<open>utf8.RuneCountInString\<close>. \<open>first\<close> is the table of that name in Go's
  \<^verbatim>\<open>unicode/utf8\<close>: for a leading byte, the length of the sequence it starts and the
  range accepted for the second byte; \<open>None\<close> for a byte that starts no sequence
  (continuation bytes, \<^verbatim>\<open>0xC0\<close>, \<^verbatim>\<open>0xC1\<close>, \<^verbatim>\<open>0xF5\<close> and above). Bytes below
  \<^verbatim>\<open>0x80\<close> are handled before the table is read.
\<close>

definition first :: "nat \<Rightarrow> (nat \<times> nat \<times> nat) option" where
  "first b =
     (if 0xC2 \<le> b \<and> b \<le> 0xDF then Some (2, 0x80, 0xBF)
      else if b = 0xE0 then Some (3, 0xA0, 0xBF)
      else if 0xE1 \<le> b \<and> b \<le> 0xEC then Some (3, 0x80, 0xBF)
      else if b = 0xED then Some (3, 0x80, 0x9F)
      else if 0xEE \<le> b \<and> b \<le> 0xEF then Some (3, 0x80, 0xBF)
      else if b = 0xF0 then Some (4, 0x90, 0xBF)
      else if 0xF1 \<le> b \<and> b \<le> 0xF3 then Some (4, 0x80, 0xBF)
      else if b = 0xF4 then Some (4, 0x80, 0x8F)
      else None)"

text \<open>
  The number of bytes one iteration of the loop of \<^verbatim>\<open>RuneCountInString\<close> advances
  by, at a position whose byte is \<open>c\<close> and whose following bytes are \<open>cs\<close>: the
  length of a well-formed sequence, and 1 for an ASCII byte and for every malformed or
  cut-off sequence.
\<close>

definition rune_size :: "nat \<Rightarrow> nat list \<Rightarrow> nat" where
  "rune_size c cs =
     (if c < 0x80 then 1
      else case first c of
        None \<Rightarrow> 1
      | Some (sz, lo, hi) \<Rightarrow>
          if Suc (length cs) < sz then 1
          else if cs ! 0 < lo \<or> hi < cs ! 0 then 1
          else if sz = 2 then 2
          else if cs ! 1 < 0x80 \<or> 0xBF < cs ! 1 then 1
          else if sz = 3 then 3
          else if cs ! 2 < 0x80 \<or> 0xBF < cs ! 2 then 1
          else 4)"

fun rune_count :: "nat list \<Rightarrow> nat" where
  "rune_count [] = 0"
| "rune_count (c # cs) = Suc (rune_count (drop (rune_size c cs - 1) cs))"

definition RuneCountInString :: "string \<Rightarrow> nat" where
  "RuneCountInString s = rune_count (map of_char s)"

text \<open>Padding to a width: spaces on the left (\<^verbatim>\<open>%30s\<close>) or on the right (\<^verbatim>\<open>%-3d\<close>).\<close>

definition padLeft :: "nat \<Rightarrow> string \<Rightarrow> string" where
  "padLeft w s = replicate (w - RuneCountInString s) CHR '' '' @ s"

definition padRight :: "nat \<Rightarrow> string \<Rightarrow> string" where
  "padRight w s = s @ replicate (w - RuneCountInString s) CHR '' ''"

text \<open>The decimal digits of a number, as \<^verbatim>\<open>%d\<close> prints an \<^verbatim>\<open>int\<close>.\<close>

fun digits :: "nat \<Rightarrow> string" where
  "digits n = (if n < 10 then [''0123456789'' ! n]
               else digits (n div 10) @ [''0123456789'' ! (n mod 10)])"

definition itoa :: "int \<Rightarrow> string" where
  "itoa i = (if i < 0 then CHR ''-'' # digits (nat (- i)) else digits (nat i))"

text \<open>\<^verbatim>\<open>fmt.Sprintf("[%s] %30s:%-3d %s", lvl, path, line, msgFmt)\<close>.\<close>

definition Sprintf_line :: "string \<Rightarrow> string \<Rightarrow> int \<Rightarrow> string \<Rightarrow> string" where
  "Sprintf_line lvl path ln msgFmt =
     ''['' @ lvl @ ''] '' @ padLeft 30 path @ '':'' @ padRight 3 (itoa ln) @ '' '' @ msgFmt"

subsection \<open>\<^verbatim>\<open>print\<close>\<close>

text \<open>The string \<^verbatim>\<open>"\<dots>"\<close> of the source: U+2026 in UTF-8, three bytes.\<close>

definition ellipsis :: string where
  "ellipsis = [CHR 0xE2, CHR 0x80, CHR 0xA6]"

text \<open>The escape character \<^verbatim>\<open>\x1b\<close>.\<close>

definition esc :: string where
  "esc = [CHR 0x1B]"

text \<open>
  The first half of \<^verbatim>\<open>print\<close>: the value of its local \<^verbatim>\<open>msg\<close>, from the
  flag \<^verbatim>\<open>Colours\<close>, the arguments and the call site \<open>c\<close>. \<^verbatim>\<open>fn[len(fn)-cutoff:]\<close>
  is \<^term>\<open>drop (length fn - cutoff) fn\<close>; \<open>cutoff\<close> is at most \<^verbatim>\<open>len(fn)\<close>, so the
  slice never panics.
\<close>

definition print_msg :: "bool \<Rightarrow> string \<Rightarrow> string \<Rightarrow> string \<Rightarrow> caller \<Rightarrow> string" where
  "print_msg colours colour lvl msgFmt c =
     (let fn = fst c;
          ln = snd c;
          cutoff = (if length fn < 30 then length fn else 30);
          lvl' = (if colours
                  then esc @ ''[1m'' @ esc @ ''['' @ colour @ ''m'' @ lvl @ esc @ ''[0m''
                  else lvl)
      in Sprintf_line lvl' (ellipsis @ drop (length fn - cutoff) fn) ln msgFmt)"

text \<open>The second half: \<^verbatim>\<open>Println\<close> without variadic arguments, \<^verbatim>\<open>Printf\<close> with.\<close>

definition print :: "string \<Rightarrow> string \<Rightarrow> string \<Rightarrow> iface list \<Rightarrow> caller \<Rightarrow> state \<Rightarrow> state" where
  "print colour lvl msgFmt v c s =
     (let msg = print_msg (Colours s) colour lvl msgFmt c
      in if length v = 0
         then s\<lparr>out := out s @ [LoggerPrintln msg]\<rparr>
         else s\<lparr>out := out s @ [LoggerPrintf msg v]\<rparr>)"

subsection \<open>The entry points\<close>

definition Trace :: "string \<Rightarrow> iface list \<Rightarrow> caller \<Rightarrow> state \<Rightarrow> state" where
  "Trace msgFmt v c s =
     (let s1 = s\<lparr>calls := calls s @ [ETrace]\<rparr>
      in if logLevel s1 < LevelTrace then s1
         else print ''95'' ''TRC'' msgFmt v c s1)"

definition Debug :: "string \<Rightarrow> iface list \<Rightarrow> caller \<Rightarrow> state \<Rightarrow> state" where
  "Debug msgFmt v c s =
     (let s1 = s\<lparr>calls := calls s @ [EDebug]\<rparr>
      in if logLevel s1 < LevelDebug then s1
         else print ''96'' ''DBG'' msgFmt v c s1)"

definition Info :: "string \<Rightarrow> iface list \<Rightarrow> caller \<Rightarrow> state \<Rightarrow> state" where
  "Info msgFmt v c s =
     (let s1 = s\<lparr>calls := calls s @ [EInfo]\<rparr>
      in if logLevel s1 < LevelInfo then s1
         else print ''92'' ''INF'' msgFmt v c s1)"

definition Warn :: "string \<Rightarrow> iface list \<Rightarrow> caller \<Rightarrow> state \<Rightarrow> state" where
  "Warn msgFmt v c s =
     (let s1 = s\<lparr>calls := calls s @ [EWarn]\<rparr>
      in if logLevel s1 < LevelWarning then s1
         else print ''93'' ''WRN'' msgFmt v c s1)"

definition Error :: "string \<Rightarrow> iface list \<Rightarrow> caller \<Rightarrow> state \<Rightarrow> state" where
  "Error msgFmt v c s =
     (let s1 = s\<lparr>calls := calls s @ [EError]\<rparr>
      in if logLevel s1 < LevelError then s1
         else (let s2 = print ''91'' ''ERR'' msgFmt v c s1
               in s2\<lparr>out := out s2 @ [PrintStack]\<rparr>))"

subsection \<open>The setters\<close>

text \<open>
  The setters and \<^verbatim>\<open>Write\<close> call entry points themselves, so the call site that
  \<^verbatim>\<open>print\<close> finds is a line of \<^verbatim>\<open>log.go\<close>. The path under which the compiler
  recorded that file is the parameter \<open>this_file\<close>.
\<close>

definition SetLogLevel :: "int \<Rightarrow> string \<Rightarrow> state \<Rightarrow> state" where
  "SetLogLevel level this_file s =
     (if level < LevelNone \<or> level > LevelTrace
      then Error ''Invalid log level %v'' [IntV level] (this_file, 62) s
      else s\<lparr>logLevel := level\<rparr>)"

definition SetDefaultLevel :: "int \<Rightarrow> string \<Rightarrow> state \<Rightarrow> state" where
  "SetDefaultLevel level this_file s =
     (if level < LevelNone \<or> level > LevelDebug
      then Error ''Invalid log level %v'' [IntV level] (this_file, 76) s
      else s\<lparr>defaultLevel := level\<rparr>)"

subsection \<open>The writer\<close>

text \<open>
  \<^verbatim>\<open>func (writer) Write(p []byte) (n int, err error)\<close>: the new state and the pair
  of results; \<open>None\<close> is the \<^verbatim>\<open>nil\<close> error.
\<close>

type_synonym error = string

definition Write :: "string \<Rightarrow> string \<Rightarrow> state \<Rightarrow> state \<times> (int \<times> error option)" where
  "Write p this_file s =
     (let s' = (if defaultLevel s = LevelDebug then Debug p [] (this_file, 131) s
                else if defaultLevel s = LevelInfo then Info p [] (this_file, 133) s
                else if defaultLevel s = LevelWarning then Warn p [] (this_file, 135) s
                else if defaultLevel s = LevelError then Error p [] (this_file, 137) s
                else s)
      in (s', (int (length p), None)))"

subsection \<open>Sequences of public operations\<close>

fun invoke :: "entry \<Rightarrow> string \<Rightarrow> iface list \<Rightarrow> caller \<Rightarrow> state \<Rightarrow> state" where
  "invoke ETrace = Trace"
| "invoke EDebug = Debug"
| "invoke EInfo = Info"
| "invoke EWarn = Warn"
| "invoke EError = Error"

fun level_of :: "entry \<Rightarrow> int" where
  "level_of ETrace = LevelTrace"
| "level_of EDebug = LevelDebug"
| "level_of EInfo = LevelInfo"
| "level_of EWarn = LevelWarning"
| "level_of EError = LevelError"

text \<open>
  What a client of the package can do: call a setter, assign the exported variable
  \<^verbatim>\<open>Colours\<close>, call an entry point from some call site, or write bytes to the
  \<^verbatim>\<open>writer\<close> behind the exported \<^verbatim>\<open>Logger\<close>.
\<close>

datatype op =
    OpSetLogLevel int
  | OpSetDefaultLevel int
  | OpSetColours bool
  | OpEntry entry string "iface list" caller
  | OpWrite string

fun step :: "string \<Rightarrow> state \<Rightarrow> op \<Rightarrow> state" where
  "step this_file s (OpSetLogLevel level) = SetLogLevel level this_file s"
| "step this_file s (OpSetDefaultLevel level) = SetDefaultLevel level this_file s"
| "step this_file s (OpSetColours b) = s\<lparr>Colours := b\<rparr>"
| "step this_file s (OpEntry e msgFmt v c) = invoke e msgFmt v c s"
| "step this_file s (OpWrite p) = fst (Write p this_file s)"

definition run :: "string \<Rightarrow> op list \<Rightarrow> state" where
  "run this_file ops = foldl (step this_file) init_state ops"

text \<open>The two ranges the setters check.\<close>

definition levels_in_range :: "state \<Rightarrow> bool" where
  "levels_in_range s =
     (LevelNone \<le> logLevel s \<and> logLevel s \<le> LevelTrace \<and>
      LevelNone \<le> defaultLevel s \<and> defaultLevel s \<le> LevelDebug)"

subsection \<open>Vocabulary of the statements\<close>

text \<open>The call of \<^verbatim>\<open>logger\<close> that \<^verbatim>\<open>print\<close> makes for a line and its arguments.\<close>

definition logger_call :: "string \<Rightarrow> iface list \<Rightarrow> event" where
  "logger_call msg v = (if length v = 0 then LoggerPrintln msg else LoggerPrintf msg v)"

text \<open>
  The part of the caller's path that \<^verbatim>\<open>print\<close> shows: its last 30 bytes when it is
  longer than that, all of it otherwise.
\<close>

definition shown_path :: "string \<Rightarrow> string" where
  "shown_path p = (if 30 < length p then drop (length p - 30) p else p)"

text \<open>The level tag as \<^verbatim>\<open>print\<close> shows it: wrapped in ANSI codes when colours are on.\<close>

definition shown_tag :: "bool \<Rightarrow> string \<Rightarrow> string \<Rightarrow> string" where
  "shown_tag colours colour lvl =
     (if colours then esc @ ''[1m'' @ esc @ ''['' @ colour @ ''m'' @ lvl @ esc @ ''[0m''
      else lvl)"



section \<open>Properties\<close>

lemmas level_defs =
  LevelTrace_def LevelDebug_def LevelInfo_def LevelWarning_def LevelError_def LevelNone_def

declare digits.simps [simp del]

subsection \<open>Effects of \<^verbatim>\<open>print\<close> and of the entry points\<close>

lemma print_out:
  "out (print colour lvl msgFmt v c s) =
     out s @ [logger_call (print_msg (Colours s) colour lvl msgFmt c) v]"
  by (simp add: print_def logger_call_def Let_def)

lemma print_vars:
  "logLevel (print colour lvl msgFmt v c s) = logLevel s"
  "defaultLevel (print colour lvl msgFmt v c s) = defaultLevel s"
  "Colours (print colour lvl msgFmt v c s) = Colours s"
  "calls (print colour lvl msgFmt v c s) = calls s"
  by (simp_all add: print_def Let_def)

lemmas entry_defs = Trace_def Debug_def Info_def Warn_def Error_def

lemma invoke_vars:
  "logLevel (invoke e msgFmt v c s) = logLevel s"
  "defaultLevel (invoke e msgFmt v c s) = defaultLevel s"
  "Colours (invoke e msgFmt v c s) = Colours s"
  by (cases e; simp add: entry_defs Let_def print_vars)+

lemma invoke_calls: "calls (invoke e msgFmt v c s) = calls s @ [e]"
  by (cases e; simp add: entry_defs Let_def print_vars)

lemma Trace_out:
  "out (Trace msgFmt v c s) =
     out s @ (if LevelTrace \<le> logLevel s
              then [logger_call (print_msg (Colours s) ''95'' ''TRC'' msgFmt c) v] else [])"
  by (simp add: Trace_def Let_def print_out)

lemma Debug_out:
  "out (Debug msgFmt v c s) =
     out s @ (if LevelDebug \<le> logLevel s
              then [logger_call (print_msg (Colours s) ''96'' ''DBG'' msgFmt c) v] else [])"
  by (simp add: Debug_def Let_def print_out)

lemma Info_out:
  "out (Info msgFmt v c s) =
     out s @ (if LevelInfo \<le> logLevel s
              then [logger_call (print_msg (Colours s) ''92'' ''INF'' msgFmt c) v] else [])"
  by (simp add: Info_def Let_def print_out)

lemma Warn_out:
  "out (Warn msgFmt v c s) =
     out s @ (if LevelWarning \<le> logLevel s
              then [logger_call (print_msg (Colours s) ''93'' ''WRN'' msgFmt c) v] else [])"
  by (simp add: Warn_def Let_def print_out)

lemma Error_out:
  "out (Error msgFmt v c s) =
     out s @ (if LevelError \<le> logLevel s
              then [logger_call (print_msg (Colours s) ''91'' ''ERR'' msgFmt c) v, PrintStack]
              else [])"
  by (simp add: Error_def Let_def print_out)

lemma invoke_out_changed:
  "(out (invoke e msgFmt v c s) \<noteq> out s) = (level_of e \<le> logLevel s)"
  by (cases e; simp add: Trace_out Debug_out Info_out Warn_out Error_out)

lemma Error_vars:
  "logLevel (Error msgFmt v c s) = logLevel s"
  "defaultLevel (Error msgFmt v c s) = defaultLevel s"
  "Colours (Error msgFmt v c s) = Colours s"
  using invoke_vars [of EError msgFmt v c s] by simp_all


lemma stream_of_logger_call: "stream_of (logger_call msg v) = Stdout"
  by (simp add: logger_call_def)

subsection \<open>The layout of the line\<close>

lemma shown_path_drop:
  "drop (length p - (if length p < 30 then length p else 30)) p = shown_path p"
  by (simp add: shown_path_def)

lemma print_msg_layout:
  "print_msg colours colour lvl msgFmt c =
     ''['' @ shown_tag colours colour lvl @ ''] '' @
     replicate (30 - RuneCountInString (ellipsis @ shown_path (fst c))) CHR '' '' @
     ellipsis @ shown_path (fst c) @
     '':'' @ padRight 3 (itoa (snd c)) @ '' '' @ msgFmt"
  by (simp add: print_msg_def Let_def Sprintf_line_def padLeft_def shown_tag_def
      shown_path_drop del: append_assoc)

lemma length_shown_path: "length (shown_path p) = min 30 (length p)"
  by (simp add: shown_path_def)

lemma print_msg_contains_path:
  "sublist (ellipsis @ shown_path (fst c)) (print_msg colours colour lvl msgFmt c)"
proof -
  have "print_msg colours colour lvl msgFmt c =
      (''['' @ shown_tag colours colour lvl @ ''] '' @
       replicate (30 - RuneCountInString (ellipsis @ shown_path (fst c))) CHR '' '') @
      (ellipsis @ shown_path (fst c)) @
      ('':'' @ padRight 3 (itoa (snd c)) @ '' '' @ msgFmt)"
    by (simp add: print_msg_layout)
  then show ?thesis
    by (simp only: sublist_appendI)
qed

subsection \<open>Gating by the threshold\<close>

text \<open>
  Claim C1. For each of the five entry points and every value of \<^verbatim>\<open>logLevel\<close>, the call
  writes its formatted line exactly when the threshold is at least the level of the entry
  point, equality included, and writes nothing otherwise. The line is the one
  \<^verbatim>\<open>print\<close> assembles with the colour and tag of the entry point; \<^verbatim>\<open>Error\<close> adds its
  stack trace after the line.
\<close>

theorem entry_emits_iff_threshold:
  "out (Trace msgFmt v c s) =
     out s @ (if LevelTrace \<le> logLevel s
              then [logger_call (print_msg (Colours s) ''95'' ''TRC'' msgFmt c) v] else []) \<and>
   out (Debug msgFmt v c s) =
     out s @ (if LevelDebug \<le> logLevel s
              then [logger_call (print_msg (Colours s) ''96'' ''DBG'' msgFmt c) v] else []) \<and>
   out (Info msgFmt v c s) =
     out s @ (if LevelInfo \<le> logLevel s
              then [logger_call (print_msg (Colours s) ''92'' ''INF'' msgFmt c) v] else []) \<and>
   out (Warn msgFmt v c s) =
     out s @ (if LevelWarning \<le> logLevel s
              then [logger_call (print_msg (Colours s) ''93'' ''WRN'' msgFmt c) v] else []) \<and>
   out (Error msgFmt v c s) =
     out s @ (if LevelError \<le> logLevel s
              then [logger_call (print_msg (Colours s) ''91'' ''ERR'' msgFmt c) v, PrintStack]
              else []) \<and>
   (out (invoke e msgFmt v c s) \<noteq> out s) = (level_of e \<le> logLevel s)"
  by (intro conjI Trace_out Debug_out Info_out Warn_out Error_out invoke_out_changed)

subsection \<open>The caller's path in the line\<close>

text \<open>
  Claim C2, as the code has it. For every caller path \<open>p\<close> the line holds the ellipsis
  marker followed by the shown part of \<open>p\<close>: its last 30 bytes when \<open>p\<close> is longer
  than 30 bytes, and \<open>p\<close> itself otherwise. The marker is written in both cases;
  lengths are counted in bytes. Before the marker stand the bracketed tag and the padding
  of \<^verbatim>\<open>%30s\<close>, after the path the colon, the line number and the message.
\<close>

theorem print_msg_path:
  "print_msg colours colour lvl msgFmt (p, ln) =
     ''['' @ shown_tag colours colour lvl @ ''] '' @
     replicate (30 - RuneCountInString (ellipsis @ shown_path p)) CHR '' '' @
     ellipsis @ shown_path p @
     '':'' @ padRight 3 (itoa ln) @ '' '' @ msgFmt \<and>
   shown_path p = (if 30 < length p then drop (length p - 30) p else p) \<and>
   length (shown_path p) = min 30 (length p) \<and>
   suffix (shown_path p) p \<and>
   sublist (ellipsis @ shown_path p) (print_msg colours colour lvl msgFmt (p, ln))"
proof (intro conjI)
  show "suffix (shown_path p) p"
    by (simp add: shown_path_def suffix_drop)
  show "sublist (ellipsis @ shown_path p) (print_msg colours colour lvl msgFmt (p, ln))"
    using print_msg_contains_path [of "(p, ln)"] by simp
qed (simp_all add: print_msg_layout length_shown_path shown_path_def)

text \<open>
  The claim as written says that a path of at most 30 bytes appears with no ellipsis
  marker. The seven-byte path \<^verbatim>\<open>main.go\<close> is printed with the marker in front.
\<close>

theorem short_path_has_ellipsis:
  "length ''main.go'' \<le> 30 \<and>
   print_msg False ''92'' ''INF'' ''hello'' (''main.go'', 10) =
     ''[INF] '' @ replicate 22 CHR '' '' @ ellipsis @ ''main.go:10  hello'' \<and>
   sublist ellipsis (print_msg False ''92'' ''INF'' ''hello'' (''main.go'', 10))"
  by code_simp

subsection \<open>Rejected levels\<close>

text \<open>
  Claim C3, as the code has it. For a level below \<open>LevelNone\<close> or above
  \<open>LevelTrace\<close>, \<^verbatim>\<open>SetLogLevel\<close> leaves \<^verbatim>\<open>logLevel\<close> (and the other two variables)
  unchanged and reports through \<^verbatim>\<open>Error\<close>, which the threshold gates like any other
  call: with the threshold at \<open>LevelError\<close> or above it writes exactly one
  \<^verbatim>\<open>ERR\<close> line, whose argument is the rejected value, and then the stack trace; with
  the threshold at \<open>LevelNone\<close> it writes nothing.
\<close>

theorem SetLogLevel_rejects:
  assumes "level < LevelNone \<or> level > LevelTrace"
  shows "logLevel (SetLogLevel level this_file s) = logLevel s \<and>
         defaultLevel (SetLogLevel level this_file s) = defaultLevel s \<and>
         Colours (SetLogLevel level this_file s) = Colours s \<and>
         out (SetLogLevel level this_file s) =
           out s @ (if LevelError \<le> logLevel s
                    then [LoggerPrintf
                            (print_msg (Colours s) ''91'' ''ERR'' ''Invalid log level %v''
                               (this_file, 62))
                            [IntV level],
                          PrintStack]
                    else [])"
  using assms by (simp add: SetLogLevel_def Error_vars Error_out logger_call_def)

text \<open>Level 7 in the initial state: one \<^verbatim>\<open>ERR\<close> line for line 62 of the file.\<close>

theorem SetLogLevel_rejects_witness:
  "((7::int) < LevelNone \<or> 7 > LevelTrace) \<and>
   logLevel (SetLogLevel 7 ''log.go'' init_state) = logLevel init_state \<and>
   out (SetLogLevel 7 ''log.go'' init_state) =
     out init_state @ (if LevelError \<le> logLevel init_state
        then [LoggerPrintf
                (print_msg (Colours init_state) ''91'' ''ERR'' ''Invalid log level %v''
                   (''log.go'', 62))
                [IntV 7],
              PrintStack]
        else []) \<and>
   out (SetLogLevel 7 ''log.go'' init_state) =
     [LoggerPrintf
        (''[ERR] '' @ replicate 23 CHR '' '' @ ellipsis @ ''log.go:62  Invalid log level %v'')
        [IntV 7],
      PrintStack]"
proof -
  have h: "(7::int) < LevelNone \<or> 7 > LevelTrace"
    by (simp add: level_defs)
  have e: "out (SetLogLevel 7 ''log.go'' init_state) =
     [LoggerPrintf
        (''[ERR] '' @ replicate 23 CHR '' '' @ ellipsis @ ''log.go:62  Invalid log level %v'')
        [IntV 7],
      PrintStack]"
    by code_simp
  show ?thesis
    using h e SetLogLevel_rejects [OF h, of "''log.go''" init_state] by blast
qed

text \<open>
  The claim as written promises the \<^verbatim>\<open>ERR\<close> line in every prior state. After
  \<^verbatim>\<open>SetLogLevel(0)\<close> the call \<^verbatim>\<open>SetLogLevel(7)\<close> writes nothing.
\<close>

theorem SetLogLevel_silent_at_LevelNone:
  "((7::int) < LevelNone \<or> 7 > LevelTrace) \<and>
   logLevel (SetLogLevel 0 ''log.go'' init_state) = LevelNone \<and>
   out (SetLogLevel 7 ''log.go'' (SetLogLevel 0 ''log.go'' init_state)) =
     out (SetLogLevel 0 ''log.go'' init_state) \<and>
   out (SetLogLevel 7 ''log.go'' (SetLogLevel 0 ''log.go'' init_state)) = []"
  by code_simp

text \<open>
  Claim C4, as the code has it. For a level below \<open>LevelNone\<close> or above
  \<open>LevelDebug\<close> (\<open>LevelTrace\<close> included), \<^verbatim>\<open>SetDefaultLevel\<close> leaves
  \<^verbatim>\<open>defaultLevel\<close> (and the other two variables) unchanged and reports through
  \<^verbatim>\<open>Error\<close>: exactly one \<^verbatim>\<open>ERR\<close> line and then the stack trace when the threshold is
  at \<open>LevelError\<close> or above, nothing when the threshold is \<open>LevelNone\<close>.
\<close>

theorem SetDefaultLevel_rejects:
  assumes "level < LevelNone \<or> level > LevelDebug"
  shows "defaultLevel (SetDefaultLevel level this_file s) = defaultLevel s \<and>
         logLevel (SetDefaultLevel level this_file s) = logLevel s \<and>
         Colours (SetDefaultLevel level this_file s) = Colours s \<and>
         out (SetDefaultLevel level this_file s) =
           out s @ (if LevelError \<le> logLevel s
                    then [LoggerPrintf
                            (print_msg (Colours s) ''91'' ''ERR'' ''Invalid log level %v''
                               (this_file, 76))
                            [IntV level],
                          PrintStack]
                    else [])"
  using assms by (simp add: SetDefaultLevel_def Error_vars Error_out logger_call_def)

text \<open>\<open>LevelTrace\<close> in the initial state: one \<^verbatim>\<open>ERR\<close> line for line 76 of the file.\<close>

theorem SetDefaultLevel_rejects_witness:
  "(LevelTrace < LevelNone \<or> LevelTrace > LevelDebug) \<and>
   defaultLevel (SetDefaultLevel LevelTrace ''log.go'' init_state) = defaultLevel init_state \<and>
   out (SetDefaultLevel LevelTrace ''log.go'' init_state) =
     out init_state @ (if LevelError \<le> logLevel init_state
        then [LoggerPrintf
                (print_msg (Colours init_state) ''91'' ''ERR'' ''Invalid log level %v''
                   (''log.go'', 76))
                [IntV LevelTrace],
              PrintStack]
        else []) \<and>
   out (SetDefaultLevel LevelTrace ''log.go'' init_state) =
     [LoggerPrintf
        (''[ERR] '' @ replicate 23 CHR '' '' @ ellipsis @ ''log.go:76  Invalid log level %v'')
        [IntV 5],
      PrintStack]"
proof -
  have h: "LevelTrace < LevelNone \<or> LevelTrace > LevelDebug"
    by (simp add: level_defs)
  have e: "out (SetDefaultLevel LevelTrace ''log.go'' init_state) =
     [LoggerPrintf
        (''[ERR] '' @ replicate 23 CHR '' '' @ ellipsis @ ''log.go:76  Invalid log level %v'')
        [IntV 5],
      PrintStack]"
    by code_simp
  show ?thesis
    using h e SetDefaultLevel_rejects [OF h, of "''log.go''" init_state] by blast
qed

text \<open>
  The claim as written promises the \<^verbatim>\<open>ERR\<close> line in every prior state. After
  \<^verbatim>\<open>SetLogLevel(0)\<close> the call \<^verbatim>\<open>SetDefaultLevel(5)\<close> writes nothing.
\<close>

theorem SetDefaultLevel_silent_at_LevelNone:
  "(LevelTrace < LevelNone \<or> LevelTrace > LevelDebug) \<and>
   logLevel (SetLogLevel 0 ''log.go'' init_state) = LevelNone \<and>
   out (SetDefaultLevel LevelTrace ''log.go'' (SetLogLevel 0 ''log.go'' init_state)) =
     out (SetLogLevel 0 ''log.go'' init_state) \<and>
   out (SetDefaultLevel LevelTrace ''log.go'' (SetLogLevel 0 ''log.go'' init_state)) = []"
  by code_simp

subsection \<open>The dispatch of \<^verbatim>\<open>Write\<close>\<close>

text \<open>
  Claim C5, as the code has it. \<^verbatim>\<open>Write\<close> reads \<^verbatim>\<open>defaultLevel\<close> at the call. When it
  is \<open>LevelDebug\<close>, \<open>LevelInfo\<close>, \<open>LevelWarning\<close> or \<open>LevelError\<close>, exactly one
  entry point is entered, the one of that level, with the buffer as the message and no
  arguments; \<^verbatim>\<open>Trace\<close> is never entered. When it is \<open>LevelNone\<close>, no entry point is
  entered and the state is unchanged.
\<close>

theorem Write_dispatch:
  "calls (fst (Write p this_file s)) =
     calls s @ (if defaultLevel s = LevelDebug then [EDebug]
                else if defaultLevel s = LevelInfo then [EInfo]
                else if defaultLevel s = LevelWarning then [EWarn]
                else if defaultLevel s = LevelError then [EError]
                else []) \<and>
   fst (Write p this_file s) =
     (if defaultLevel s = LevelDebug then Debug p [] (this_file, 131) s
      else if defaultLevel s = LevelInfo then Info p [] (this_file, 133) s
      else if defaultLevel s = LevelWarning then Warn p [] (this_file, 135) s
      else if defaultLevel s = LevelError then Error p [] (this_file, 137) s
      else s)"
  using invoke_calls [of EDebug] invoke_calls [of EInfo] invoke_calls [of EWarn]
    invoke_calls [of EError]
  by (simp add: Write_def Let_def)

text \<open>
  The claim as written includes \<open>LevelNone\<close>, a value \<^verbatim>\<open>SetDefaultLevel\<close> accepts.
  With it, a write enters no entry point at all.
\<close>

theorem Write_at_LevelNone_invokes_nothing:
  "LevelNone \<le> LevelNone \<and> LevelNone \<le> LevelDebug \<and>
   defaultLevel (SetDefaultLevel LevelNone ''log.go'' init_state) = LevelNone \<and>
   calls (SetDefaultLevel LevelNone ''log.go'' init_state) = [] \<and>
   calls (fst (Write ''hello'' ''log.go'' (SetDefaultLevel LevelNone ''log.go'' init_state))) = [] \<and>
   out (fst (Write ''hello'' ''log.go'' (SetDefaultLevel LevelNone ''log.go'' init_state))) = []"
  by code_simp

subsection \<open>The result of \<^verbatim>\<open>Write\<close>\<close>

text \<open>
  Claim C6. For every byte buffer and every state, \<^verbatim>\<open>Write\<close> returns the length of
  the buffer and the \<^verbatim>\<open>nil\<close> error.
\<close>

theorem Write_returns_len_nil:
  "snd (Write p this_file s) = (int (length p), None)"
  by (simp add: Write_def Let_def)

subsection \<open>The levels stay in range\<close>

lemma step_levels_in_range:
  "levels_in_range s \<Longrightarrow> levels_in_range (step this_file s x)"
proof (cases x)
  case (OpSetLogLevel level)
  assume "levels_in_range s"
  then show ?thesis
    by (simp add: OpSetLogLevel levels_in_range_def SetLogLevel_def Error_vars)
next
  case (OpSetDefaultLevel level)
  assume "levels_in_range s"
  then show ?thesis
    by (simp add: OpSetDefaultLevel levels_in_range_def SetDefaultLevel_def Error_vars)
next
  case (OpSetColours b)
  assume "levels_in_range s"
  then show ?thesis
    by (simp add: OpSetColours levels_in_range_def)
next
  case (OpEntry e msgFmt v c)
  assume "levels_in_range s"
  then show ?thesis
    by (simp add: OpEntry levels_in_range_def invoke_vars)
next
  case (OpWrite p)
  have "logLevel (fst (Write p this_file s)) = logLevel s"
    "defaultLevel (fst (Write p this_file s)) = defaultLevel s"
    using invoke_vars [of EDebug] invoke_vars [of EInfo] invoke_vars [of EWarn]
      invoke_vars [of EError]
    by (simp_all add: Write_def Let_def)
  moreover assume "levels_in_range s"
  ultimately show ?thesis
    by (simp add: OpWrite levels_in_range_def)
qed

lemma foldl_levels_in_range:
  "levels_in_range s \<Longrightarrow> levels_in_range (foldl (step this_file) s ops)"
  by (induction ops arbitrary: s) (simp_all add: step_levels_in_range)

lemma init_levels_in_range: "levels_in_range init_state"
  by (simp add: levels_in_range_def init_state_def level_defs)

text \<open>
  Claim C7. After any sequence of public operations from the initial state,
  \<^verbatim>\<open>logLevel\<close> is within \<open>[LevelNone, LevelTrace]\<close> and \<^verbatim>\<open>defaultLevel\<close> within
  \<open>[LevelNone, LevelDebug]\<close>. Every prefix of a sequence is a sequence, so the ranges
  hold after each single operation as well.
\<close>

theorem run_levels_in_range:
  "levels_in_range (run this_file ops)"
  unfolding run_def by (rule foldl_levels_in_range [OF init_levels_in_range])

subsection \<open>The stack trace of \<^verbatim>\<open>Error\<close>\<close>

text \<open>
  What \<^verbatim>\<open>Error\<close> does when the threshold lets it through: the line goes through
  \<^verbatim>\<open>logger\<close>, to standard output, and directly after it, before anything else is
  written, comes the stack trace, which \<^verbatim>\<open>debug.PrintStack\<close> sends to standard error.
\<close>

lemma Error_line_then_stack:
  assumes "LevelError \<le> logLevel s"
  shows "out (Error msgFmt v c s) =
           out s @ [logger_call (print_msg (Colours s) ''91'' ''ERR'' msgFmt c) v, PrintStack] \<and>
         stream_of (logger_call (print_msg (Colours s) ''91'' ''ERR'' msgFmt c) v) = Stdout \<and>
         stream_of PrintStack = Stderr"
  using assms by (simp add: Error_out stream_of_logger_call)

text \<open>
  Claim C8. Whenever an \<^verbatim>\<open>Error\<close> call passes the threshold, its line is followed by
  the stack trace on the same output stream. The comment that opens \<^verbatim>\<open>log.go\<close> says
  the same of the whole package: it only logs to standard output. The code does not keep
  to it. In the initial state, \<^verbatim>\<open>Error("boom")\<close> called from line 10 of
  \<^verbatim>\<open>main.go\<close> passes the threshold and writes its line to standard output, as every
  other entry point does, and then the stack trace to standard error: the order is the
  claimed one, the stream of the trace is not.
\<close>

theorem stack_trace_on_other_stream:
  "LevelError \<le> logLevel init_state \<and>
   out (Error ''boom'' [] (''main.go'', 10) init_state) =
     [LoggerPrintln (''[ERR] '' @ replicate 22 CHR '' '' @ ellipsis @ ''main.go:10  boom''),
      PrintStack] \<and>
   map stream_of (out (Error ''boom'' [] (''main.go'', 10) init_state)) = [Stdout, Stderr] \<and>
   Stdout \<noteq> Stderr"
  by code_simp

subsection \<open>Suppressed calls\<close>

text \<open>
  Claim C9. When the threshold is below the level of an entry point, a call to it writes
  nothing and leaves \<^verbatim>\<open>logLevel\<close>, \<^verbatim>\<open>defaultLevel\<close> and \<^verbatim>\<open>Colours\<close> as they were: the
  state after the call is the state before it, but for the record that the entry point
  was entered.
\<close>

theorem suppressed_entry_is_noop:
  assumes "logLevel s < level_of e"
  shows "out (invoke e msgFmt v c s) = out s \<and>
         logLevel (invoke e msgFmt v c s) = logLevel s \<and>
         defaultLevel (invoke e msgFmt v c s) = defaultLevel s \<and>
         Colours (invoke e msgFmt v c s) = Colours s \<and>
         invoke e msgFmt v c s = s\<lparr>calls := calls s @ [e]\<rparr>"
proof -
  have "invoke e msgFmt v c s = s\<lparr>calls := calls s @ [e]\<rparr>"
    using assms by (cases e) (simp_all add: entry_defs Let_def)
  then show ?thesis
    by simp
qed

text \<open>With the threshold at Warning, a call of \<^verbatim>\<open>Info\<close> changes nothing.\<close>

theorem suppressed_entry_is_noop_witness:
  "logLevel (init_state\<lparr>logLevel := 2\<rparr>) < level_of EInfo \<and>
   out (invoke EInfo ''hello'' [] (''main.go'', 10) (init_state\<lparr>logLevel := 2\<rparr>)) = [] \<and>
   logLevel (invoke EInfo ''hello'' [] (''main.go'', 10) (init_state\<lparr>logLevel := 2\<rparr>)) = 2 \<and>
   defaultLevel (invoke EInfo ''hello'' [] (''main.go'', 10) (init_state\<lparr>logLevel := 2\<rparr>)) = 4 \<and>
   Colours (invoke EInfo ''hello'' [] (''main.go'', 10) (init_state\<lparr>logLevel := 2\<rparr>)) = False"
proof -
  have h: "logLevel (init_state\<lparr>logLevel := 2\<rparr>) < level_of EInfo"
    by (simp add: init_state_def LevelInfo_def)
  show ?thesis
    using h suppressed_entry_is_noop [OF h, of "''hello''" "[]" "(''main.go'', 10)"]
    by (simp add: init_state_def LevelDebug_def)
qed

subsection \<open>The format string of \<^verbatim>\<open>Printf\<close>\<close>


text \<open>
  A call site under a directory named \<^verbatim>\<open>100%s\<close>: with an argument the \<^verbatim>\<open>%s\<close> of the
  path is inside the format string of \<^verbatim>\<open>Printf\<close>, before the \<^verbatim>\<open>%d\<close> of the
  template; without arguments the line is the operand of \<^verbatim>\<open>Println\<close>.
\<close>

lemma format_string_example:
  "out (invoke EInfo ''%d files'' [IntV 3] (''/srv/100%s/main.go'', 7) init_state) =
     [LoggerPrintf
        (''[INF] '' @ replicate 11 CHR '' '' @ ellipsis @ ''/srv/100%s/main.go:7   %d files'')
        [IntV 3]] \<and>
   out (invoke EInfo ''%d files'' [] (''/srv/100%s/main.go'', 7) init_state) =
     [LoggerPrintln
        (''[INF] '' @ replicate 11 CHR '' '' @ ellipsis @ ''/srv/100%s/main.go:7   %d files'')]"
  by code_simp

end
